theory Spec2Isabelle
  imports Complex_Main "HOL-Library.Multiset"
begin

section \<open>Data model (src/types.ts)\<close>

text \<open>
  The TypeScript type \<^verbatim>\<open>number\<close> is modelled by the real numbers: \<^verbatim>\<open>Math.sin\<close> is
  \<^const>\<open>sin\<close>, \<^verbatim>\<open>Math.PI\<close> is \<^const>\<open>pi\<close>, \<^verbatim>\<open>Math.sqrt\<close> is \<^const>\<open>sqrt\<close>, and
  \<^verbatim>\<open>Math.pow(d, 3.5)\<close> on a distance \<open>d \<ge> 0\<close> is \<open>d powr 3.5\<close> (both give \<open>0\<close> at
  \<open>d = 0\<close>). Rounding, infinities and NaN of IEEE doubles are outside this model.
  An optional field \<^verbatim>\<open>f?: T\<close> is a field of type \<open>T option\<close>, \<^const>\<open>None\<close> standing
  for \<^verbatim>\<open>undefined\<close>.
\<close>

record Harmonic =
  order :: real
  amplitudeRatio :: real
  phaseShift :: real

record VibrationComponent =
  amplitude :: real
  phase :: real
  harmonics :: "Harmonic list option"
  noise :: "real option"

record MeasurementPoint =
  ident :: string
  label :: string
  position :: "real \<times> real \<times> real"
  horizontal :: VibrationComponent
  vertical :: VibrationComponent
  axial :: VibrationComponent
  isReference :: "bool option"

text \<open>
  \<^verbatim>\<open>THREE.Vector3\<close>, with the one method the engine calls on it: three.js divides
  by a scalar by multiplying each coordinate with its reciprocal.
\<close>

datatype Vector3 = Vector3 (vec_x: real) (vec_y: real) (vec_z: real)

definition multiplyScalar :: "Vector3 \<Rightarrow> real \<Rightarrow> Vector3" where
  "multiplyScalar v s = Vector3 (vec_x v * s) (vec_y v * s) (vec_z v * s)"

definition divideScalar :: "Vector3 \<Rightarrow> real \<Rightarrow> Vector3" where
  "divideScalar v s = multiplyScalar v (1 / s)"

section \<open>Component model: \<^verbatim>\<open>calculateComponentDisplacement\<close>\<close>

text \<open>
  The body of \<^verbatim>\<open>for (const h of comp.harmonics)\<close>: one harmonic is added to the
  running value \<open>val\<close> per iteration, in list order. The source's parameter
  \<^verbatim>\<open>comp\<close> is written \<open>cmp\<close> throughout.
\<close>

fun harmonicsLoop :: "VibrationComponent \<Rightarrow> real \<Rightarrow> real \<Rightarrow> Harmonic list \<Rightarrow> real \<Rightarrow> real" where
  "harmonicsLoop cmp omega t [] val = val"
| "harmonicsLoop cmp omega t (h # hs) val =
     (let hOmega = omega * order h;
          hAng = hOmega * t + ((phase cmp + phaseShift h) * pi / 180)
      in harmonicsLoop cmp omega t hs (val + sin hAng * (amplitude cmp * amplitudeRatio h)))"

text \<open>
  The guard \<^verbatim>\<open>comp.harmonics && comp.harmonics.length > 0\<close> is false for an absent list
  and for an empty one; \<^verbatim>\<open>comp.noise && comp.noise > 0\<close> is false for an absent noise,
  for \<open>0\<close> and for a negative one.
\<close>

definition calculateComponentDisplacement ::
  "VibrationComponent \<Rightarrow> real \<Rightarrow> real \<Rightarrow> real \<Rightarrow> real \<Rightarrow> real" where
  "calculateComponentDisplacement cmp omega t globalGain scalar =
     (let ang1 = omega * t + (phase cmp * pi / 180);
          val1 = sin ang1 * amplitude cmp;
          val2 = (case harmonics cmp of
                    None \<Rightarrow> val1
                  | Some hs \<Rightarrow> if length hs > 0 then harmonicsLoop cmp omega t hs val1 else val1);
          val3 = (case noise cmp of
                    None \<Rightarrow> val2
                  | Some n \<Rightarrow>
                      if n \<noteq> 0 \<and> n > 0 then
                        (let noiseFreq = omega * 25.0;
                             noiseVal = sin (noiseFreq * t) + 0.5 * sin (noiseFreq * 1.3 * t)
                         in val2 + noiseVal * n)
                      else val2)
      in val3 * globalGain * scalar)"

section \<open>Interpolation kernel: \<^verbatim>\<open>calculateVertexDisplacement\<close>\<close>

text \<open>
  The distance from the vertex \<open>(x, y, z)\<close> to the sensor \<open>p\<close> and the weight of a
  sensor at that distance, as the loop body computes them. The loop body sees the
  locals \<^verbatim>\<open>omega\<close>, \<^verbatim>\<open>power\<close> and \<^verbatim>\<open>SCALAR\<close> of the enclosing function; they are
  parameters here. The source's \<^verbatim>\<open>dist\<close> and \<^verbatim>\<open>power\<close> are written \<open>dst\<close> and
  \<open>pow\<close>, its roster \<^verbatim>\<open>points\<close> is written \<open>pts\<close>.
\<close>

definition sensorDist :: "real \<Rightarrow> real \<Rightarrow> real \<Rightarrow> MeasurementPoint \<Rightarrow> real" where
  "sensorDist x y z p =
     (let dx = x - fst (position p);
          dy = y - fst (snd (position p));
          dz = z - snd (snd (position p));
          distSq = dx * dx + dy * dy + dz * dz
      in sqrt distSq)"

definition sensorWeight :: "real \<Rightarrow> real \<Rightarrow> real" where
  "sensorWeight pow dst = 1.0 / (dst powr pow + 0.1)"

fun sensorLoop ::
  "real \<Rightarrow> real \<Rightarrow> real \<Rightarrow> real \<Rightarrow> real \<Rightarrow> real \<Rightarrow> real \<Rightarrow> real
     \<Rightarrow> MeasurementPoint list \<Rightarrow> Vector3 \<times> real \<Rightarrow> Vector3 \<times> real" where
  "sensorLoop x y z t omega globalGain pow SCALAR [] (displacement, totalWeight) =
     (displacement, totalWeight)"
| "sensorLoop x y z t omega globalGain pow SCALAR (p # ps) (displacement, totalWeight) =
     (let dst = sensorDist x y z p;
          weight = sensorWeight pow dst;
          magH = calculateComponentDisplacement (horizontal p) omega t globalGain SCALAR;
          magV = calculateComponentDisplacement (vertical p) omega t globalGain SCALAR;
          magA = calculateComponentDisplacement (axial p) omega t globalGain SCALAR
      in sensorLoop x y z t omega globalGain pow SCALAR ps
           (Vector3 (vec_x displacement + magH * weight)
                    (vec_y displacement + magV * weight)
                    (vec_z displacement + magA * weight),
            totalWeight + weight))"

text \<open>The guarded division after the loop.\<close>

definition weightedAverage :: "Vector3 \<times> real \<Rightarrow> Vector3" where
  "weightedAverage acc =
     (case acc of (displacement, totalWeight) \<Rightarrow>
        if totalWeight > 0 then divideScalar displacement totalWeight else displacement)"

definition calculateVertexDisplacement ::
  "real \<Rightarrow> real \<Rightarrow> real \<Rightarrow> real \<Rightarrow> real \<Rightarrow> MeasurementPoint list \<Rightarrow> real \<Rightarrow> Vector3" where
  "calculateVertexDisplacement x y z t animationRpm pts globalGain =
     (let omega = (animationRpm * 2 * pi) / 60;
          pow = 3.5;
          SCALAR = 0.015
      in weightedAverage
           (sensorLoop x y z t omega globalGain pow SCALAR pts (Vector3 0 0 0, 0)))"

section \<open>Orbit plot: the drawing effect of \<^verbatim>\<open>OrbitWindow\<close>\<close>

definition numCycles :: real where
  "numCycles = 2"

definition points :: nat where
  "points = 720"

definition duration :: real where
  "duration = numCycles * 2 * pi"

fun peakLoop :: "VibrationComponent \<Rightarrow> Harmonic list \<Rightarrow> real \<Rightarrow> real" where
  "peakLoop cmp [] peak = peak"
| "peakLoop cmp (h # hs) peak = peakLoop cmp hs (peak + amplitude cmp * amplitudeRatio h)"

text \<open>
  \<^verbatim>\<open>if(comp.harmonics)\<close> holds for every list that is present, also the empty one;
  \<^verbatim>\<open>if(comp.noise)\<close> holds for every noise that is present and not \<open>0\<close>.
\<close>

definition getPeakAmp :: "VibrationComponent \<Rightarrow> real" where
  "getPeakAmp cmp =
     (let peak1 = amplitude cmp;
          peak2 = (case harmonics cmp of None \<Rightarrow> peak1 | Some hs \<Rightarrow> peakLoop cmp hs peak1);
          peak3 = (case noise cmp of
                     None \<Rightarrow> peak2
                   | Some n \<Rightarrow> if n \<noteq> 0 then peak2 + n else peak2)
      in peak3)"

definition maxAmp :: "VibrationComponent \<Rightarrow> VibrationComponent \<Rightarrow> real" where
  "maxAmp probeX probeY = max (getPeakAmp probeX) (getPeakAmp probeY) * 1.5"

text \<open>\<^verbatim>\<open>maxAmp || 1\<close> is \<open>1\<close> when \<^verbatim>\<open>maxAmp\<close> is \<open>0\<close>.\<close>

definition scale :: "real \<Rightarrow> VibrationComponent \<Rightarrow> VibrationComponent \<Rightarrow> real" where
  "scale width probeX probeY =
     (width * 0.4) / (if maxAmp probeX probeY \<noteq> 0 then maxAmp probeX probeY else 1)"

fun calcValLoop :: "VibrationComponent \<Rightarrow> real \<Rightarrow> Harmonic list \<Rightarrow> real \<Rightarrow> real" where
  "calcValLoop cmp t [] v = v"
| "calcValLoop cmp t (h # hs) v =
     calcValLoop cmp t hs
       (v + (amplitude cmp * amplitudeRatio h)
              * sin (t * order h + ((phase cmp + phaseShift h) * pi / 180)))"

definition calcVal :: "VibrationComponent \<Rightarrow> real \<Rightarrow> real" where
  "calcVal cmp t =
     (let v = amplitude cmp * sin (t + (phase cmp * pi / 180))
      in case harmonics cmp of None \<Rightarrow> v | Some hs \<Rightarrow> calcValLoop cmp t hs v)"

text \<open>The canvas path: \<^verbatim>\<open>ctx.moveTo\<close> and \<^verbatim>\<open>ctx.lineTo\<close> calls, in the order made.\<close>

datatype PathCmd = MoveTo real real | LineTo real real

text \<open>The parameter of sample \<open>i\<close>: \<^verbatim>\<open>(i / points) * duration\<close>.\<close>

definition sampleTime :: "nat \<Rightarrow> real" where
  "sampleTime i = (real i / real points) * duration"

text \<open>\<^verbatim>\<open>for (let i = 0; i <= points; i++)\<close>, from the counter value \<open>i\<close> on.\<close>

function orbitLoop ::
  "real \<Rightarrow> real \<Rightarrow> real \<Rightarrow> VibrationComponent \<Rightarrow> VibrationComponent \<Rightarrow> nat \<Rightarrow> PathCmd list" where
  "orbitLoop centerX centerY scl probeX probeY i =
     (if i \<le> points then
        (let t = sampleTime i;
             valX = calcVal probeX t;
             valY = calcVal probeY t;
             px = centerX + valX * scl;
             py = centerY - valY * scl
         in (if i = 0 then MoveTo px py else LineTo px py)
              # orbitLoop centerX centerY scl probeX probeY (i + 1))
      else [])"
  by pat_completeness auto
termination
  by (relation "measure (\<lambda>(centerX, centerY, scl, probeX, probeY, i). points + 1 - i)") auto

declare orbitLoop.simps [simp del]

text \<open>
  The canvas element as the effect reads it: its width, its height, and whether
  \<^verbatim>\<open>canvas.getContext('2d')\<close> gives a context.
\<close>

record Canvas =
  canvasWidth :: real
  canvasHeight :: real
  context2d :: bool

text \<open>
  The effect that draws the orbit. It returns early, drawing nothing (\<^const>\<open>None\<close>),
  when the plot is closed, when \<^verbatim>\<open>canvasRef.current\<close> is not set or when a probe is
  missing, and then when the canvas gives no 2d context. The probes are the
  \<^verbatim>\<open>horizontal\<close> components of the orbit points named \<^verbatim>\<open>probe-x\<close> and \<^verbatim>\<open>probe-y\<close>;
  the component looks them up before the effect runs. The grid, the keyphasor dot and
  the labels the effect also draws are not part of the trajectory and are left out.
\<close>

definition orbitEffect ::
  "bool \<Rightarrow> Canvas option \<Rightarrow> VibrationComponent option \<Rightarrow> VibrationComponent option
     \<Rightarrow> PathCmd list option" where
  "orbitEffect isOrbitPlotOpen canvasRefCurrent probeX probeY =
     (if \<not> isOrbitPlotOpen then None
      else case canvasRefCurrent of
        None \<Rightarrow> None
      | Some canvas \<Rightarrow>
          (case probeX of
             None \<Rightarrow> None
           | Some pX \<Rightarrow>
               (case probeY of
                  None \<Rightarrow> None
                | Some pY \<Rightarrow>
                    if \<not> context2d canvas then None
                    else
                      (let width = canvasWidth canvas;
                           height = canvasHeight canvas;
                           centerX = width / 2;
                           centerY = height / 2
                       in Some (orbitLoop centerX centerY (scale width pX pY) pX pY 0)))))"

section \<open>Simulation clock: the \<^verbatim>\<open>useFrame\<close> callbacks\<close>

text \<open>
  What the frame callbacks test before they touch the clock: the group or mesh the
  ref points to (\<^const>\<open>None\<close> for a \<^verbatim>\<open>null\<close> ref), the mesh's geometry and whether
  the geometry has a position attribute.
\<close>

record BufferGeometry =
  hasPositionAttribute :: bool

record Mesh =
  geometry :: "BufferGeometry option"

text \<open>
  The clock part of \<^verbatim>\<open>DynamicVector\<close>'s callback: the new value of
  \<^verbatim>\<open>timeRef.current\<close>. \<open>groupRefCurrent\<close> tells whether \<^verbatim>\<open>groupRef.current\<close> is set.
  Everything after the clock update reads the clock and writes the scene only.
\<close>

definition dynamicVector_useFrame :: "bool \<Rightarrow> bool \<Rightarrow> real \<Rightarrow> real \<Rightarrow> real" where
  "dynamicVector_useFrame groupRefCurrent isPlaying delta timeRef =
     (if \<not> groupRefCurrent then timeRef
      else if isPlaying then timeRef + delta
      else timeRef)"

text \<open>The clock part of \<^verbatim>\<open>DeformableMesh\<close>'s callback.\<close>

definition deformableMesh_useFrame :: "Mesh option \<Rightarrow> bool \<Rightarrow> real \<Rightarrow> real \<Rightarrow> real" where
  "deformableMesh_useFrame meshRefCurrent isPlaying delta timeRef =
     (case meshRefCurrent of
        None \<Rightarrow> timeRef
      | Some m \<Rightarrow>
          (case geometry m of
             None \<Rightarrow> timeRef
           | Some currentGeo \<Rightarrow>
               if \<not> hasPositionAttribute currentGeo then timeRef
               else if isPlaying then timeRef + delta
               else timeRef))"

text \<open>
  A run of frames: each frame supplies the state of the ref, the play flag and the
  delta; the clock is threaded through.
\<close>

fun runVectorFrames :: "(bool \<times> bool \<times> real) list \<Rightarrow> real \<Rightarrow> real" where
  "runVectorFrames [] timeRef = timeRef"
| "runVectorFrames ((groupRefCurrent, isPlaying, delta) # fs) timeRef =
     runVectorFrames fs (dynamicVector_useFrame groupRefCurrent isPlaying delta timeRef)"

fun runMeshFrames :: "(Mesh option \<times> bool \<times> real) list \<Rightarrow> real \<Rightarrow> real" where
  "runMeshFrames [] timeRef = timeRef"
| "runMeshFrames ((meshRefCurrent, isPlaying, delta) # fs) timeRef =
     runMeshFrames fs (deformableMesh_useFrame meshRefCurrent isPlaying delta timeRef)"

section \<open>Notions of the specification and example inputs\<close>

text \<open>The term one harmonic contributes, as the specification writes it.\<close>

definition harmonicTerm :: "VibrationComponent \<Rightarrow> real \<Rightarrow> real \<Rightarrow> Harmonic \<Rightarrow> real" where
  "harmonicTerm cmp omega t h =
     amplitude cmp * amplitudeRatio h
       * sin (omega * order h * t + (phase cmp + phaseShift h) * pi / 180)"

text \<open>A component whose noise term is off: noise absent, or not positive.\<close>

definition noiseInactive :: "VibrationComponent \<Rightarrow> bool" where
  "noiseInactive cmp = (case noise cmp of None \<Rightarrow> True | Some n \<Rightarrow> \<not> n > 0)"

text \<open>Non-negative amplitude, amplitude ratios and noise.\<close>

definition nonNegativeComponent :: "VibrationComponent \<Rightarrow> bool" where
  "nonNegativeComponent cmp =
     (0 \<le> amplitude cmp
      \<and> (case harmonics cmp of
           None \<Rightarrow> True
         | Some hs \<Rightarrow> list_all (\<lambda>h. 0 \<le> amplitudeRatio h) hs)
      \<and> (case noise cmp of None \<Rightarrow> True | Some n \<Rightarrow> 0 \<le> n))"

text \<open>The canvas coordinates of a path command.\<close>

fun cmdX :: "PathCmd \<Rightarrow> real" where
  "cmdX (MoveTo px py) = px"
| "cmdX (LineTo px py) = px"

fun cmdY :: "PathCmd \<Rightarrow> real" where
  "cmdY (MoveTo px py) = py"
| "cmdY (LineTo px py) = py"

text \<open>The path command the drawing loop issues at counter value \<open>i\<close>.\<close>

definition pathPoint ::
  "real \<Rightarrow> real \<Rightarrow> real \<Rightarrow> VibrationComponent \<Rightarrow> VibrationComponent \<Rightarrow> nat \<Rightarrow> PathCmd" where
  "pathPoint centerX centerY scl probeX probeY i =
     (if i = 0 then MoveTo else LineTo)
       (centerX + calcVal probeX (sampleTime i) * scl)
       (centerY - calcVal probeY (sampleTime i) * scl)"

text \<open>
  Example inputs: a component with one harmonic and noise, two harmonics, and the
  sensor of the end-to-end scenario of the specification (at the origin, amplitude
  \<open>1\<close>, phase \<open>0\<close> on every axis).
\<close>

definition exampleComponent :: VibrationComponent where
  "exampleComponent =
     \<lparr>amplitude = 2, phase = 90,
      harmonics = Some [\<lparr>order = 2, amplitudeRatio = 1 / 2, phaseShift = 0\<rparr>],
      noise = Some 3\<rparr>"

definition harmonicA :: Harmonic where
  "harmonicA = \<lparr>order = 2, amplitudeRatio = 1 / 2, phaseShift = 0\<rparr>"

definition harmonicB :: Harmonic where
  "harmonicB = \<lparr>order = 1 / 2, amplitudeRatio = 3, phaseShift = 90\<rparr>"

definition unitComponent :: VibrationComponent where
  "unitComponent = \<lparr>amplitude = 1, phase = 0, harmonics = Some [], noise = Some 0\<rparr>"

definition originSensor :: MeasurementPoint where
  "originSensor =
     \<lparr>ident = ''s0'', label = ''Origin'', position = (0, 0, 0),
      horizontal = unitComponent, vertical = unitComponent, axial = unitComponent,
      isReference = None\<rparr>"

definition farSensor :: MeasurementPoint where
  "farSensor =
     \<lparr>ident = ''s1'', label = ''Far'', position = (1, 0, 0),
      horizontal = unitComponent, vertical = unitComponent, axial = unitComponent,
      isReference = None\<rparr>"

text \<open>
  The probes of the unbalance preset of \<^verbatim>\<open>store.ts\<close> (amplitude \<open>40\<close>, phases \<open>0\<close> and
  \<open>90\<close>), a component that is noise only, the test the mesh callback makes before it
  touches the clock, and a mesh that passes it.
\<close>

definition probeX40 :: VibrationComponent where
  "probeX40 = \<lparr>amplitude = 40, phase = 0, harmonics = Some [], noise = Some 0\<rparr>"

definition probeY40 :: VibrationComponent where
  "probeY40 = \<lparr>amplitude = 40, phase = 90, harmonics = Some [], noise = Some 0\<rparr>"

text \<open>
  The probes of the rub preset of \<^verbatim>\<open>store.ts\<close> (three harmonics and noise \<open>10\<close>) and
  the canvas of the source, \<open>400\<close> by \<open>400\<close>, with a 2d context.
\<close>

definition rubHarm :: "Harmonic list" where
  "rubHarm =
     [\<lparr>order = 1 / 2, amplitudeRatio = 3 / 10, phaseShift = 0\<rparr>,
      \<lparr>order = 2, amplitudeRatio = 3 / 10, phaseShift = 180\<rparr>,
      \<lparr>order = 3, amplitudeRatio = 2 / 10, phaseShift = 0\<rparr>]"

definition rubProbeX :: VibrationComponent where
  "rubProbeX = \<lparr>amplitude = 30, phase = 0, harmonics = Some rubHarm, noise = Some 10\<rparr>"

definition rubProbeY :: VibrationComponent where
  "rubProbeY = \<lparr>amplitude = 30, phase = 90, harmonics = Some rubHarm, noise = Some 10\<rparr>"

definition canvas400 :: Canvas where
  "canvas400 = \<lparr>canvasWidth = 400, canvasHeight = 400, context2d = True\<rparr>"

definition noisyComponent :: VibrationComponent where
  "noisyComponent = \<lparr>amplitude = 0, phase = 0, harmonics = Some [], noise = Some 1\<rparr>"

definition meshReady :: "Mesh option \<Rightarrow> bool" where
  "meshReady meshRefCurrent =
     (case meshRefCurrent of
        None \<Rightarrow> False
      | Some m \<Rightarrow> (case geometry m of None \<Rightarrow> False | Some g \<Rightarrow> hasPositionAttribute g))"

definition readyMesh :: Mesh where
  "readyMesh = \<lparr>geometry = Some \<lparr>hasPositionAttribute = True\<rparr>\<rparr>"

section \<open>Properties of the component model\<close>

lemma harmonicsLoop_sum:
  "harmonicsLoop cmp omega t hs val = val + (\<Sum>h\<leftarrow>hs. harmonicTerm cmp omega t h)"
  by (induction hs arbitrary: val) (simp_all add: harmonicTerm_def Let_def algebra_simps)

lemma ccd_formula:
  "calculateComponentDisplacement cmp omega t globalGain scalar =
     (amplitude cmp * sin (omega * t + phase cmp * pi / 180)
      + (\<Sum>h\<leftarrow>(case harmonics cmp of None \<Rightarrow> [] | Some hs \<Rightarrow> hs). harmonicTerm cmp omega t h)
      + (case noise cmp of
           None \<Rightarrow> 0
         | Some n \<Rightarrow> if n > 0 then n * (sin (25 * omega * t) + 0.5 * sin (25 * 1.3 * omega * t)) else 0))
     * globalGain * scalar"
  by (simp add: calculateComponentDisplacement_def Let_def harmonicsLoop_sum algebra_simps
           split: option.split)

lemma sum_list_mset_cong:
  fixes f :: "'a \<Rightarrow> real"
  assumes "mset xs = mset ys"
  shows "(\<Sum>x\<leftarrow>xs. f x) = (\<Sum>x\<leftarrow>ys. f x)"
proof -
  have "(\<Sum>x\<leftarrow>xs. f x) = sum_mset (image_mset f (mset xs))"
    by (simp flip: sum_mset_sum_list)
  also have "\<dots> = sum_mset (image_mset f (mset ys))"
    using assms by simp
  also have "\<dots> = (\<Sum>x\<leftarrow>ys. f x)"
    by (simp flip: sum_mset_sum_list)
  finally show ?thesis .
qed

text \<open>
  Claim C1. The value \<^verbatim>\<open>val\<close> that \<^verbatim>\<open>calculateComponentDisplacement\<close> builds up
  is the fundamental \<open>amplitude * sin (omega * t + phase * pi / 180)\<close>, plus one term
  \<open>amplitude * amplitudeRatio h * sin (omega * order h * t + (phase + phaseShift h) * pi / 180)\<close>
  for each harmonic \<open>h\<close> of the list (none when the list is absent), plus, exactly
  when the noise is present and positive,
  \<open>noise * (sin (25 * omega * t) + 0.5 * sin (25 * 1.3 * omega * t))\<close>. Nothing in the
  formula looks at the size of \<open>order h\<close>, so fractional and sub-synchronous orders
  are covered. The function returns this value times the gain and the scalar its
  caller passes; with both \<open>1\<close> it returns the waveform itself.
\<close>

theorem C1_component_waveform:
  "calculateComponentDisplacement cmp omega t globalGain scalar =
     (amplitude cmp * sin (omega * t + phase cmp * pi / 180)
      + (\<Sum>h\<leftarrow>(case harmonics cmp of None \<Rightarrow> [] | Some hs \<Rightarrow> hs).
           amplitude cmp * amplitudeRatio h
             * sin (omega * order h * t + (phase cmp + phaseShift h) * pi / 180))
      + (case noise cmp of
           None \<Rightarrow> 0
         | Some n \<Rightarrow> if n > 0 then n * (sin (25 * omega * t) + 0.5 * sin (25 * 1.3 * omega * t)) else 0))
     * globalGain * scalar"
  using ccd_formula [of cmp omega t globalGain scalar] by (simp add: harmonicTerm_def)

theorem C1_component_waveform_witness:
  "calculateComponentDisplacement exampleComponent 1 0 2 (1 / 2) = 3"
  using C1_component_waveform [of exampleComponent 1 0 2 "1 / 2"]
  by (simp add: exampleComponent_def)

text \<open>
  Claim C5. Permuting the harmonics list of a component (the two lists have the same
  elements with the same multiplicities) does not change the evaluated value, for
  every angular velocity, time, gain and scalar.
\<close>

theorem C5_harmonics_permutation:
  assumes "mset hs' = mset hs"
  shows "calculateComponentDisplacement (cmp\<lparr>harmonics := Some hs'\<rparr>) omega t globalGain scalar
       = calculateComponentDisplacement (cmp\<lparr>harmonics := Some hs\<rparr>) omega t globalGain scalar"
proof -
  have "(\<Sum>h\<leftarrow>hs'. harmonicTerm cmp omega t h) = (\<Sum>h\<leftarrow>hs. harmonicTerm cmp omega t h)"
    using assms by (rule sum_list_mset_cong)
  then show ?thesis
    by (simp add: ccd_formula harmonicTerm_def)
qed

theorem C5_harmonics_permutation_witness:
  "mset [harmonicB, harmonicA] = mset [harmonicA, harmonicB]
   \<and> calculateComponentDisplacement
         (exampleComponent\<lparr>harmonics := Some [harmonicB, harmonicA]\<rparr>) 1 0 1 1
       = calculateComponentDisplacement
           (exampleComponent\<lparr>harmonics := Some [harmonicA, harmonicB]\<rparr>) 1 0 1 1"
proof -
  have h: "mset [harmonicB, harmonicA] = mset [harmonicA, harmonicB]"
    by (simp add: add_mset_commute)
  show ?thesis
    using h C5_harmonics_permutation [OF h, of exampleComponent 1 0 1 1] by simp
qed

text \<open>
  Claim C9. A component whose harmonics list is absent evaluates to the same value as
  the same component with an empty list, and one whose noise is absent to the same
  value as with noise \<open>0\<close>, for every angular velocity and time. The evaluation is a
  total function: the guards of the source keep it from reading an absent field.
\<close>

theorem C9_optional_fields:
  "calculateComponentDisplacement (cmp\<lparr>harmonics := None\<rparr>) omega t globalGain scalar
     = calculateComponentDisplacement (cmp\<lparr>harmonics := Some []\<rparr>) omega t globalGain scalar
   \<and> calculateComponentDisplacement (cmp\<lparr>noise := None\<rparr>) omega t globalGain scalar
     = calculateComponentDisplacement (cmp\<lparr>noise := Some 0\<rparr>) omega t globalGain scalar
   \<and> calculateComponentDisplacement (cmp\<lparr>harmonics := None, noise := None\<rparr>) omega t globalGain scalar
     = calculateComponentDisplacement (cmp\<lparr>harmonics := Some [], noise := Some 0\<rparr>) omega t globalGain scalar"
  by (simp add: ccd_formula harmonicTerm_def)

theorem C9_optional_fields_witness:
  "calculateComponentDisplacement (exampleComponent\<lparr>harmonics := None, noise := None\<rparr>) 1 0 1 1
     = calculateComponentDisplacement
         (exampleComponent\<lparr>harmonics := Some [], noise := Some 0\<rparr>) 1 0 1 1"
  using C9_optional_fields [of exampleComponent 1 0 1 1] by simp

section \<open>Properties of the interpolation kernel\<close>

lemma sensorWeight_pos: "0 < sensorWeight pow d"
proof -
  have "0 \<le> d powr pow" by simp
  then have "0 < d powr pow + 0.1" by linarith
  then show ?thesis by (simp add: sensorWeight_def)
qed

lemma sensorWeight_strict_antimono:
  assumes "0 < pow" "0 \<le> d1" "d1 < d2"
  shows "sensorWeight pow d2 < sensorWeight pow d1"
proof -
  have lt: "d1 powr pow < d2 powr pow"
    using assms by (rule powr_less_mono2)
  have "0 \<le> d1 powr pow" by simp
  then have pos: "0 < d1 powr pow + 0.1" by linarith
  from lt have "d1 powr pow + 0.1 < d2 powr pow + 0.1" by simp
  with pos show ?thesis
    unfolding sensorWeight_def by (simp add: frac_less2)
qed

lemma sensorLoop_totalWeight:
  "snd (sensorLoop x y z t omega g pow S pts (v, w)) =
     w + (\<Sum>p\<leftarrow>pts. sensorWeight pow (sensorDist x y z p))"
  by (induction pts arbitrary: v w) (simp_all add: Let_def)

lemma sensorLoop_vec_x:
  "vec_x (fst (sensorLoop x y z t omega g pow S pts (v, w))) =
     vec_x v + (\<Sum>p\<leftarrow>pts. calculateComponentDisplacement (horizontal p) omega t g S
                              * sensorWeight pow (sensorDist x y z p))"
  by (induction pts arbitrary: v w) (simp_all add: Let_def)

lemma sensorLoop_vec_y:
  "vec_y (fst (sensorLoop x y z t omega g pow S pts (v, w))) =
     vec_y v + (\<Sum>p\<leftarrow>pts. calculateComponentDisplacement (vertical p) omega t g S
                              * sensorWeight pow (sensorDist x y z p))"
  by (induction pts arbitrary: v w) (simp_all add: Let_def)

lemma sensorLoop_vec_z:
  "vec_z (fst (sensorLoop x y z t omega g pow S pts (v, w))) =
     vec_z v + (\<Sum>p\<leftarrow>pts. calculateComponentDisplacement (axial p) omega t g S
                              * sensorWeight pow (sensorDist x y z p))"
  by (induction pts arbitrary: v w) (simp_all add: Let_def)

lemma sum_list_pos_weights:
  "pts \<noteq> [] \<Longrightarrow> 0 < (\<Sum>p\<leftarrow>pts. sensorWeight pow (sensorDist x y z p))"
proof (induction pts)
  case Nil
  then show ?case by simp
next
  case (Cons p ps)
  have "0 \<le> (\<Sum>p\<leftarrow>ps. sensorWeight pow (sensorDist x y z p))"
    by (rule sum_list_nonneg) (auto simp: less_imp_le sensorWeight_pos)
  moreover have "0 < sensorWeight pow (sensorDist x y z p)"
    by (rule sensorWeight_pos)
  ultimately show ?case by simp
qed

lemma sensorLoop_totalWeight_pos:
  "pts \<noteq> [] \<Longrightarrow> 0 < snd (sensorLoop x y z t omega g pow S pts (Vector3 0 0 0, 0))"
  by (simp add: sensorLoop_totalWeight sum_list_pos_weights)

lemma ccd_gain:
  "calculateComponentDisplacement cmp omega t g S = g * calculateComponentDisplacement cmp omega t 1 S"
  by (simp add: ccd_formula)

text \<open>
  Claim C3. The weight \<open>1 / (d powr 3.5 + 0.1)\<close> of a sensor is positive for every
  distance \<open>d \<ge> 0\<close>. For a roster with at least one sensor the total weight the loop
  accumulates is positive, so the guard \<^verbatim>\<open>totalWeight > 0\<close> holds and the result is
  the accumulated vector divided by a positive number. For the empty roster the total
  weight is \<open>0\<close>, the guard fails, nothing is divided, and the result is the zero
  vector, for every query point and time.
\<close>

theorem C3_total_weight_positive:
  "(0 \<le> d \<longrightarrow> 0 < sensorWeight 3.5 d)
   \<and> (pts \<noteq> [] \<longrightarrow>
        0 < snd (sensorLoop x y z t (animationRpm * 2 * pi / 60) globalGain 3.5 0.015 pts
                   (Vector3 0 0 0, 0))
        \<and> calculateVertexDisplacement x y z t animationRpm pts globalGain
            = divideScalar
                (fst (sensorLoop x y z t (animationRpm * 2 * pi / 60) globalGain 3.5 0.015 pts
                        (Vector3 0 0 0, 0)))
                (snd (sensorLoop x y z t (animationRpm * 2 * pi / 60) globalGain 3.5 0.015 pts
                        (Vector3 0 0 0, 0))))
   \<and> snd (sensorLoop x y z t (animationRpm * 2 * pi / 60) globalGain 3.5 0.015 []
            (Vector3 0 0 0, 0)) = 0
   \<and> calculateVertexDisplacement x y z t animationRpm [] globalGain = Vector3 0 0 0"
proof -
  have nonempty: "calculateVertexDisplacement x y z t animationRpm pts globalGain
            = divideScalar
                (fst (sensorLoop x y z t (animationRpm * 2 * pi / 60) globalGain 3.5 0.015 pts
                        (Vector3 0 0 0, 0)))
                (snd (sensorLoop x y z t (animationRpm * 2 * pi / 60) globalGain 3.5 0.015 pts
                        (Vector3 0 0 0, 0)))"
    if "pts \<noteq> []"
    using sensorLoop_totalWeight_pos [OF that, of x y z t "animationRpm * 2 * pi / 60" globalGain
            "3.5" "0.015"]
    by (simp only: calculateVertexDisplacement_def Let_def weightedAverage_def case_prod_beta if_True)
  have empty: "calculateVertexDisplacement x y z t animationRpm [] globalGain = Vector3 0 0 0"
    by (simp add: calculateVertexDisplacement_def weightedAverage_def)
  show ?thesis
    using nonempty empty sensorWeight_pos [of "3.5" d]
      sensorLoop_totalWeight_pos [of pts x y z t "animationRpm * 2 * pi / 60" globalGain "3.5" "0.015"]
    by simp
qed

theorem C3_total_weight_positive_witness:
  "(0::real) \<le> 0 \<and> [originSensor] \<noteq> []
   \<and> 0 < sensorWeight 3.5 0
   \<and> 0 < snd (sensorLoop 0 0 0 0 (60 * 2 * pi / 60) 1 3.5 0.015 [originSensor] (Vector3 0 0 0, 0))
   \<and> calculateVertexDisplacement 0 0 0 0 60 [] 1 = Vector3 0 0 0"
  using C3_total_weight_positive [of 0 "[originSensor]" 0 0 0 0 60 1] by simp

lemma sensorDist_nonneg: "0 \<le> sensorDist x y z p"
  by (simp add: sensorDist_def Let_def)

lemma weightedAverage_vec:
  "vec_x (weightedAverage (v, w)) = (if w > 0 then vec_x v / w else vec_x v)"
  "vec_y (weightedAverage (v, w)) = (if w > 0 then vec_y v / w else vec_y v)"
  "vec_z (weightedAverage (v, w)) = (if w > 0 then vec_z v / w else vec_z v)"
  by (simp_all add: weightedAverage_def divideScalar_def multiplyScalar_def)

lemma weightedAverage_single:
  "weightedAverage (sensorLoop x y z t omega g pow S [p] (Vector3 0 0 0, 0)) =
     Vector3 (calculateComponentDisplacement (horizontal p) omega t g S)
             (calculateComponentDisplacement (vertical p) omega t g S)
             (calculateComponentDisplacement (axial p) omega t g S)"
proof -
  have "0 < sensorWeight pow (sensorDist x y z p)"
    by (rule sensorWeight_pos)
  then show ?thesis
    by (simp add: Let_def weightedAverage_def divideScalar_def multiplyScalar_def)
qed

lemma ccd_unit:
  "calculateComponentDisplacement cmp omega t g S =
     calculateComponentDisplacement cmp omega t 1 1 * g * S"
  by (simp add: ccd_formula)

text \<open>
  Claim C4. With a roster of exactly one sensor, the kernel queried at that sensor's
  position returns on each axis the sensor's waveform (the component evaluated with
  gain and scalar \<open>1\<close>) times \<open>globalGain\<close> times \<open>0.015\<close>; the same loop run with any
  other exponent \<open>pow\<close> in place of \<open>3.5\<close> returns the same vector. For a sensor at
  the origin whose vertical component has amplitude \<open>1\<close>, phase \<open>0\<close>, no harmonics and
  no noise, with \<open>animationRpm = 60\<close> and \<open>globalGain = 1\<close>, the vertical output at
  \<open>t = 0.25\<close> is \<open>1 * 0.015\<close>.
\<close>

theorem C4_single_sensor:
  "(position p = (x, y, z) \<longrightarrow>
      calculateVertexDisplacement x y z t animationRpm [p] globalGain =
        Vector3
          (calculateComponentDisplacement (horizontal p) (animationRpm * 2 * pi / 60) t 1 1
             * globalGain * 0.015)
          (calculateComponentDisplacement (vertical p) (animationRpm * 2 * pi / 60) t 1 1
             * globalGain * 0.015)
          (calculateComponentDisplacement (axial p) (animationRpm * 2 * pi / 60) t 1 1
             * globalGain * 0.015)
      \<and> (\<forall>pow. weightedAverage
                  (sensorLoop x y z t (animationRpm * 2 * pi / 60) globalGain pow 0.015 [p]
                     (Vector3 0 0 0, 0))
                = calculateVertexDisplacement x y z t animationRpm [p] globalGain))
   \<and> (position p = (0, 0, 0) \<and> amplitude (vertical p) = 1 \<and> phase (vertical p) = 0
        \<and> harmonics (vertical p) \<in> {None, Some []} \<and> noise (vertical p) \<in> {None, Some 0}
      \<longrightarrow> vec_y (calculateVertexDisplacement 0 0 0 0.25 60 [p] 1) = 1 * 0.015)"
proof -
  have single: "calculateVertexDisplacement x y z t animationRpm [p] globalGain =
        Vector3
          (calculateComponentDisplacement (horizontal p) (animationRpm * 2 * pi / 60) t 1 1
             * globalGain * 0.015)
          (calculateComponentDisplacement (vertical p) (animationRpm * 2 * pi / 60) t 1 1
             * globalGain * 0.015)
          (calculateComponentDisplacement (axial p) (animationRpm * 2 * pi / 60) t 1 1
             * globalGain * 0.015)" for x y z t animationRpm globalGain
    by (simp only: calculateVertexDisplacement_def Let_def weightedAverage_single
          ccd_unit [of _ _ _ globalGain "0.015"])
  have expo: "weightedAverage
                  (sensorLoop x y z t (animationRpm * 2 * pi / 60) globalGain pow 0.015 [p]
                     (Vector3 0 0 0, 0))
                = calculateVertexDisplacement x y z t animationRpm [p] globalGain" for pow
    unfolding calculateVertexDisplacement_def Let_def weightedAverage_single ..
  have scen: "vec_y (calculateVertexDisplacement 0 0 0 0.25 60 [p] 1) = 1 * 0.015"
    if "amplitude (vertical p) = 1" "phase (vertical p) = 0"
       "harmonics (vertical p) \<in> {None, Some []}" "noise (vertical p) \<in> {None, Some 0}"
  proof -
    have "calculateComponentDisplacement (vertical p) (60 * 2 * pi / 60) 0.25 1 1 = sin (pi / 2)"
      using that by (auto simp add: ccd_formula)
    then show ?thesis
      by (simp add: single)
  qed
  show ?thesis
    using single expo scen by blast
qed

theorem C4_single_sensor_witness:
  "position originSensor = (0, 0, 0)
   \<and> amplitude (vertical originSensor) = 1 \<and> phase (vertical originSensor) = 0
   \<and> harmonics (vertical originSensor) = Some [] \<and> noise (vertical originSensor) = Some 0
   \<and> calculateVertexDisplacement 0 0 0 0.25 60 [originSensor] 1 = Vector3 0.015 0.015 0.015
   \<and> vec_y (calculateVertexDisplacement 0 0 0 0.25 60 [originSensor] 1) = 1 * 0.015"
proof -
  have w: "calculateComponentDisplacement unitComponent (60 * 2 * pi / 60) 0.25 1 1 = 1"
    by (simp add: ccd_formula unitComponent_def)
  show ?thesis
    using C4_single_sensor [of originSensor 0 0 0 "0.25" 60 1] w
    by (simp add: originSensor_def unitComponent_def)
qed

lemma sensorLoop_gain_x:
  "vec_x (fst (sensorLoop x y z t omega g pow S pts (Vector3 0 0 0, 0))) =
     g * vec_x (fst (sensorLoop x y z t omega 1 pow S pts (Vector3 0 0 0, 0)))"
  unfolding sensorLoop_vec_x
  by (subst ccd_gain) (simp add: sum_list_const_mult mult.assoc)

lemma sensorLoop_gain_y:
  "vec_y (fst (sensorLoop x y z t omega g pow S pts (Vector3 0 0 0, 0))) =
     g * vec_y (fst (sensorLoop x y z t omega 1 pow S pts (Vector3 0 0 0, 0)))"
  unfolding sensorLoop_vec_y
  by (subst ccd_gain) (simp add: sum_list_const_mult mult.assoc)

lemma sensorLoop_gain_z:
  "vec_z (fst (sensorLoop x y z t omega g pow S pts (Vector3 0 0 0, 0))) =
     g * vec_z (fst (sensorLoop x y z t omega 1 pow S pts (Vector3 0 0 0, 0)))"
  unfolding sensorLoop_vec_z
  by (subst ccd_gain) (simp add: sum_list_const_mult mult.assoc)

lemma sensorLoop_gain_weight:
  "snd (sensorLoop x y z t omega g pow S pts acc) = snd (sensorLoop x y z t omega 1 pow S pts acc)"
  by (cases acc) (simp add: sensorLoop_totalWeight)

lemma weightedAverage_vec':
  "vec_x (weightedAverage acc) = (if snd acc > 0 then vec_x (fst acc) / snd acc else vec_x (fst acc))"
  "vec_y (weightedAverage acc) = (if snd acc > 0 then vec_y (fst acc) / snd acc else vec_y (fst acc))"
  "vec_z (weightedAverage acc) = (if snd acc > 0 then vec_z (fst acc) / snd acc else vec_z (fst acc))"
  by (cases acc; simp add: weightedAverage_vec)+

text \<open>
  Claim C10. The kernel's output is homogeneous in the gain: on each of the three
  axes, the output for gain \<open>g\<close> is \<open>g\<close> times the output for gain \<open>1\<close>, for every
  query point, time, animation rate and roster.
\<close>

theorem C10_gain_homogeneous:
  "vec_x (calculateVertexDisplacement x y z t animationRpm pts g)
     = g * vec_x (calculateVertexDisplacement x y z t animationRpm pts 1)
   \<and> vec_y (calculateVertexDisplacement x y z t animationRpm pts g)
     = g * vec_y (calculateVertexDisplacement x y z t animationRpm pts 1)
   \<and> vec_z (calculateVertexDisplacement x y z t animationRpm pts g)
     = g * vec_z (calculateVertexDisplacement x y z t animationRpm pts 1)"
  unfolding calculateVertexDisplacement_def Let_def weightedAverage_vec'
  by (simp add: sensorLoop_gain_x [of _ _ _ _ _ g] sensorLoop_gain_y [of _ _ _ _ _ g]
        sensorLoop_gain_z [of _ _ _ _ _ g] sensorLoop_gain_weight [of _ _ _ _ _ g])

theorem C10_gain_homogeneous_witness:
  "vec_y (calculateVertexDisplacement 0 0 0 0.25 60 [originSensor, farSensor] 7)
     = 7 * vec_y (calculateVertexDisplacement 0 0 0 0.25 60 [originSensor, farSensor] 1)"
  using C10_gain_homogeneous [of 0 0 0 "0.25" 60 "[originSensor, farSensor]" 7] by simp

text \<open>
  Claim C7. The weight \<open>1 / (d powr 3.5 + 0.1)\<close> is strictly decreasing in the distance
  on \<open>d \<ge> 0\<close> and positive everywhere. So for two sensors of a roster, the one closer
  to the query point has the strictly larger share of the total weight (its weight
  divided by the total weight the loop accumulates).
\<close>

theorem C7_weight_decay:
  "(0 \<le> d1 \<and> d1 < d2 \<longrightarrow> sensorWeight 3.5 d2 < sensorWeight 3.5 d1 \<and> 0 < sensorWeight 3.5 d2)
   \<and> (p1 \<in> set pts \<and> p2 \<in> set pts \<and> sensorDist x y z p1 < sensorDist x y z p2 \<longrightarrow>
        sensorWeight 3.5 (sensorDist x y z p2)
            / snd (sensorLoop x y z t omega globalGain 3.5 0.015 pts (Vector3 0 0 0, 0))
          < sensorWeight 3.5 (sensorDist x y z p1)
            / snd (sensorLoop x y z t omega globalGain 3.5 0.015 pts (Vector3 0 0 0, 0)))"
proof -
  have mono: "sensorWeight 3.5 b < sensorWeight 3.5 a" if "0 \<le> a" "a < b" for a b
    using that by (intro sensorWeight_strict_antimono) simp_all
  have rel: "sensorWeight 3.5 (sensorDist x y z p2)
            / snd (sensorLoop x y z t omega globalGain 3.5 0.015 pts (Vector3 0 0 0, 0))
          < sensorWeight 3.5 (sensorDist x y z p1)
            / snd (sensorLoop x y z t omega globalGain 3.5 0.015 pts (Vector3 0 0 0, 0))"
    if "p1 \<in> set pts" "sensorDist x y z p1 < sensorDist x y z p2"
  proof -
    from that(1) have "pts \<noteq> []" by auto
    then have "0 < snd (sensorLoop x y z t omega globalGain 3.5 0.015 pts (Vector3 0 0 0, 0))"
      by (rule sensorLoop_totalWeight_pos)
    moreover have "sensorWeight 3.5 (sensorDist x y z p2) < sensorWeight 3.5 (sensorDist x y z p1)"
      using that(2) by (intro mono sensorDist_nonneg)
    ultimately show ?thesis
      by (simp add: divide_strict_right_mono)
  qed
  show ?thesis
    using mono rel sensorWeight_pos by blast
qed

theorem C7_weight_decay_witness:
  "(0::real) \<le> 0 \<and> (0::real) < 1
   \<and> sensorWeight 3.5 1 < sensorWeight 3.5 0 \<and> 0 < sensorWeight 3.5 1
   \<and> originSensor \<in> set [originSensor, farSensor] \<and> farSensor \<in> set [originSensor, farSensor]
   \<and> sensorDist 0 0 0 originSensor < sensorDist 0 0 0 farSensor
   \<and> sensorWeight 3.5 (sensorDist 0 0 0 farSensor)
        / snd (sensorLoop 0 0 0 0 1 1 3.5 0.015 [originSensor, farSensor] (Vector3 0 0 0, 0))
      < sensorWeight 3.5 (sensorDist 0 0 0 originSensor)
        / snd (sensorLoop 0 0 0 0 1 1 3.5 0.015 [originSensor, farSensor] (Vector3 0 0 0, 0))"
proof -
  have d: "sensorDist 0 0 0 originSensor = 0" "sensorDist 0 0 0 farSensor = 1"
    by (simp_all add: sensorDist_def originSensor_def farSensor_def)
  show ?thesis
    using C7_weight_decay [of 0 1 originSensor "[originSensor, farSensor]" farSensor 0 0 0 0 1 1] d
    by simp
qed

section \<open>Properties of the orbit plot\<close>

lemma calcValLoop_sum:
  "calcValLoop cmp t hs v = v + (\<Sum>h\<leftarrow>hs. harmonicTerm cmp 1 t h)"
  by (induction hs arbitrary: v) (simp_all add: harmonicTerm_def mult.commute)

lemma calcVal_waveform:
  "noiseInactive cmp \<Longrightarrow> calcVal cmp t = calculateComponentDisplacement cmp 1 t 1 1"
  by (simp add: calcVal_def ccd_formula calcValLoop_sum noiseInactive_def Let_def
        split: option.splits)

lemma peakLoop_sum:
  "peakLoop cmp hs peak = peak + (\<Sum>h\<leftarrow>hs. amplitude cmp * amplitudeRatio h)"
  by (induction hs arbitrary: peak) simp_all

lemma calcValLoop_le_peakLoop:
  assumes "0 \<le> amplitude cmp" "list_all (\<lambda>h. 0 \<le> amplitudeRatio h) hs" "\<bar>v\<bar> \<le> peak"
  shows "\<bar>calcValLoop cmp t hs v\<bar> \<le> peakLoop cmp hs peak"
  using assms
proof (induction hs arbitrary: v peak)
  case Nil
  then show ?case by simp
next
  case (Cons h hs)
  let ?a = "amplitude cmp * amplitudeRatio h"
  let ?s = "sin (t * order h + ((phase cmp + phaseShift h) * pi / 180))"
  have a: "0 \<le> ?a" using Cons.prems by simp
  have "\<bar>?a * ?s\<bar> = \<bar>?a\<bar> * \<bar>?s\<bar>" by (rule abs_mult)
  also have "\<dots> = ?a * \<bar>?s\<bar>" using a by (simp only: abs_of_nonneg)
  also have "\<dots> \<le> ?a * 1" using a by (intro mult_left_mono) simp_all
  finally have "\<bar>?a * ?s\<bar> \<le> ?a" by simp
  then have "\<bar>v + ?a * ?s\<bar> \<le> peak + ?a"
    using Cons.prems(3) by linarith
  with Cons.IH [of "v + ?a * ?s" "peak + ?a"] Cons.prems show ?case by simp
qed

lemma calcVal_le_getPeakAmp:
  assumes "nonNegativeComponent cmp"
  shows "\<bar>calcVal cmp t\<bar> \<le> getPeakAmp cmp"
proof -
  let ?v = "amplitude cmp * sin (t + (phase cmp * pi / 180))"
  have amp: "0 \<le> amplitude cmp" using assms by (simp add: nonNegativeComponent_def)
  have "\<bar>?v\<bar> = amplitude cmp * \<bar>sin (t + (phase cmp * pi / 180))\<bar>"
    using amp by (simp add: abs_mult)
  also have "\<dots> \<le> amplitude cmp * 1" using amp by (intro mult_left_mono) simp_all
  finally have v: "\<bar>?v\<bar> \<le> amplitude cmp" by simp
  have h: "\<bar>calcVal cmp t\<bar>
            \<le> (case harmonics cmp of None \<Rightarrow> amplitude cmp | Some hs \<Rightarrow> peakLoop cmp hs (amplitude cmp))"
  proof (cases "harmonics cmp")
    case None
    with v show ?thesis by (simp add: calcVal_def)
  next
    case (Some hs)
    then have "list_all (\<lambda>h. 0 \<le> amplitudeRatio h) hs"
      using assms by (simp add: nonNegativeComponent_def)
    from calcValLoop_le_peakLoop [OF amp this v] Some show ?thesis
      by (simp add: calcVal_def)
  qed
  have "(case harmonics cmp of None \<Rightarrow> amplitude cmp | Some hs \<Rightarrow> peakLoop cmp hs (amplitude cmp))
          \<le> getPeakAmp cmp"
    using assms by (simp add: getPeakAmp_def nonNegativeComponent_def Let_def split: option.splits)
  with h show ?thesis by linarith
qed

lemma scaled_bound:
  fixes v M w :: real
  assumes "0 < w" "\<bar>v\<bar> \<le> M"
  shows "\<bar>v * ((w * 0.4) / (if M * 1.5 \<noteq> 0 then M * 1.5 else 1))\<bar> \<le> 4 / 15 * w"
proof (cases "M = 0")
  case True
  with assms show ?thesis by simp
next
  case False
  with assms have M: "0 < M" by linarith
  have "\<bar>v * ((w * 0.4) / (M * 1.5))\<bar> = \<bar>v\<bar> * (4 / 15 * w) / M"
    using M assms(1) by (simp add: abs_mult field_simps)
  also have "\<dots> \<le> M * (4 / 15 * w) / M"
    using M assms by (intro divide_right_mono mult_right_mono) simp_all
  also have "\<dots> = 4 / 15 * w" using M by simp
  finally show ?thesis using False by simp
qed

lemma orbitLoop_map:
  "orbitLoop centerX centerY scl probeX probeY i =
     map (pathPoint centerX centerY scl probeX probeY) [i..<Suc points]"
proof (induction centerX centerY scl probeX probeY i rule: orbitLoop.induct)
  case (1 centerX centerY scl probeX probeY i)
  show ?case
  proof (cases "i \<le> points")
    case True
    then have "[i..<Suc points] = i # [Suc i..<Suc points]"
      by (simp add: upt_conv_Cons)
    with True "1.IH" [OF True refl refl refl refl refl] show ?thesis
      by (subst orbitLoop.simps) (simp add: Let_def pathPoint_def)
  next
    case False
    then show ?thesis by (subst orbitLoop.simps) simp
  qed
qed

lemma orbitEffect_path:
  "orbitEffect True (Some \<lparr>canvasWidth = width, canvasHeight = height, context2d = True\<rparr>)
       (Some pX) (Some pY) =
     Some (map (pathPoint (width / 2) (height / 2) (scale width pX pY) pX pY) [0..<Suc points])"
  by (simp add: orbitEffect_def orbitLoop_map Let_def del: upt_Suc)

lemma orbitEffect_None:
  "orbitEffect False cv px py = None"
  "orbitEffect isOpen None px py = None"
  "orbitEffect isOpen cv None py = None"
  "orbitEffect isOpen cv px None = None"
  "\<not> context2d canvas \<Longrightarrow> orbitEffect isOpen (Some canvas) px py = None"
  by (simp_all add: orbitEffect_def split: option.splits)

lemma sampleTime_bounds:
  "i \<le> points \<Longrightarrow> 0 \<le> sampleTime i \<and> sampleTime i \<le> numCycles * 2 * pi"
proof -
  assume "i \<le> points"
  then have "real i / real points \<le> 1"
    by (simp add: points_def)
  then have "real i / real points * (4 * pi) \<le> 1 * (4 * pi)"
    by (intro mult_right_mono) simp_all
  then show ?thesis
    by (simp add: sampleTime_def duration_def numCycles_def)
qed

lemma sampleTime_ends: "sampleTime 0 = 0" "sampleTime points = numCycles * 2 * pi"
  by (simp_all add: sampleTime_def duration_def points_def)

lemma calcVal_ignores_noise: "calcVal (cmp\<lparr>noise := n\<rparr>) t = calcVal cmp t"
  by (simp add: calcVal_def calcValLoop_sum harmonicTerm_def Let_def split: option.splits)

lemma sampleTime_36: "sampleTime 36 = pi / 5"
  by (simp add: sampleTime_def points_def duration_def numCycles_def)

lemma sin_5pi: "sin (5 * pi) = 0"
  by simp

lemma sin_13pi_half: "sin (13 * pi / 2) = 1"
proof -
  have "13 * pi / 2 = pi / 2 + 2 * pi + 2 * pi + 2 * pi" by simp
  then have "sin (13 * pi / 2) = sin (pi / 2 + 2 * pi + 2 * pi + 2 * pi)" by (rule arg_cong)
  also have "\<dots> = sin (pi / 2)" by (simp only: sin_periodic)
  finally show ?thesis by simp
qed

lemma calcVal_omits_noise_example:
  "calcVal noisyComponent (sampleTime 36) = 0
   \<and> calculateComponentDisplacement noisyComponent 1 (sampleTime 36) 1 1 = 1 / 2"
proof -
  have a: "25 * (pi / 5) = 5 * pi" "25 * 1.3 * (pi / 5) = 13 * pi / 2" by simp_all
  have "calculateComponentDisplacement noisyComponent 1 (pi / 5) 1 1
          = sin (25 * (pi / 5)) + 0.5 * sin (25 * 1.3 * (pi / 5))"
    by (simp add: ccd_formula noisyComponent_def)
  also have "\<dots> = 1 / 2"
    by (simp only: a sin_5pi sin_13pi_half)
  finally show ?thesis
    by (simp add: sampleTime_36 calcVal_def noisyComponent_def)
qed

lemma orbitEffect_length:
  "map_option length
     (orbitEffect True (Some \<lparr>canvasWidth = width, canvasHeight = height, context2d = True\<rparr>)
        (Some pX) (Some pY)) = Some (points + 1)"
  by (simp add: orbitEffect_path del: upt_Suc)

text \<open>
  Claim C2 as written says the trajectory has exactly \<open>720\<close> samples with the
  parameter in the half-open interval up to \<open>numCycles * 2 * pi\<close>. The loop
  \<^verbatim>\<open>for (let i = 0; i <= points; i++)\<close> runs \<open>721\<close> times, and its last sample has
  the parameter \<open>numCycles * 2 * pi\<close> itself. It also says each coordinate is the
  component waveform with its noise term; \<^verbatim>\<open>calcVal\<close> has no noise term, and for a
  probe that is noise only the sample \<open>i = 36\<close> is \<open>0\<close> where the waveform is \<open>1 / 2\<close>.
\<close>

theorem C2_orbit_samples_counterexample:
  "map_option length (orbitEffect True (Some canvas400) (Some probeX40) (Some probeY40)) \<noteq> Some 720
   \<and> \<not> sampleTime 720 < numCycles * 2 * pi
   \<and> calcVal noisyComponent (sampleTime 36)
       \<noteq> calculateComponentDisplacement noisyComponent 1 (sampleTime 36) 1 1"
  using calcVal_omits_noise_example
  by (simp add: canvas400_def orbitEffect_length points_def sampleTime_def duration_def)

text \<open>
  Claim C2, amended. The drawing effect draws only when the plot is open, the canvas
  is there and gives a 2d context, and both probes are present. Then, with the default
  settings (\<open>points = 720\<close>, \<open>numCycles = 2\<close>) and for all probes, it issues a path of
  exactly \<open>points + 1 = 721\<close> samples, one \<^verbatim>\<open>moveTo\<close> followed by \<open>720\<close> \<^verbatim>\<open>lineTo\<close>.
  Sample \<open>i\<close>, for \<open>0 \<le> i \<le> points\<close>, has the parameter
  \<open>t = (i / points) * numCycles * 2 * pi\<close>, which runs over the closed interval from
  \<open>0\<close> to \<open>numCycles * 2 * pi\<close> with both ends taken. For a probe whose noise term is
  off (noise absent or not positive), the coordinate of the sample on that probe's
  axis is \<open>width / 2 + vx * scale\<close> for the x probe and \<open>height / 2 - vy * scale\<close> for
  the y probe, where \<open>vx\<close> and \<open>vy\<close> are the component waveforms of the probes at
  angular velocity \<open>1\<close> and time \<open>t\<close>.
\<close>

theorem C2_orbit_samples:
  "(\<exists>path.
      orbitEffect True (Some \<lparr>canvasWidth = width, canvasHeight = height, context2d = True\<rparr>)
          (Some pX) (Some pY) = Some path
      \<and> points = 720 \<and> numCycles = 2
      \<and> length path = points + 1
      \<and> sampleTime 0 = 0 \<and> sampleTime points = numCycles * 2 * pi
      \<and> (\<forall>i\<le>points.
            sampleTime i = (real i / real points) * (numCycles * 2 * pi)
            \<and> 0 \<le> sampleTime i \<and> sampleTime i \<le> numCycles * 2 * pi
            \<and> path ! i = (if i = 0 then MoveTo else LineTo) (cmdX (path ! i)) (cmdY (path ! i))
            \<and> (noiseInactive pX \<longrightarrow>
                  cmdX (path ! i) =
                    width / 2
                      + calculateComponentDisplacement pX 1 (sampleTime i) 1 1 * scale width pX pY)
            \<and> (noiseInactive pY \<longrightarrow>
                  cmdY (path ! i) =
                    height / 2
                      - calculateComponentDisplacement pY 1 (sampleTime i) 1 1 * scale width pX pY)))
   \<and> orbitEffect False cv px py = None
   \<and> orbitEffect isOpen None px py = None
   \<and> orbitEffect isOpen cv None py = None
   \<and> orbitEffect isOpen cv px None = None
   \<and> (\<not> context2d canvas \<longrightarrow> orbitEffect isOpen (Some canvas) px py = None)"
proof -
  let ?pt = "pathPoint (width / 2) (height / 2) (scale width pX pY) pX pY"
  let ?path = "map ?pt [0..<Suc points]"
  have len: "length ?path = points + 1"
    by simp
  have nth: "?path ! i = ?pt i" if "i \<le> points" for i
  proof -
    from that have "i < length [0..<Suc points]" by simp
    then have "?path ! i = ?pt ([0..<Suc points] ! i)"
      by (rule nth_map)
    also have "[0..<Suc points] ! i = i"
      using that by (simp del: upt_Suc add: nth_upt)
    finally show ?thesis .
  qed
  have shape: "?pt i = (if i = 0 then MoveTo else LineTo) (cmdX (?pt i)) (cmdY (?pt i))" for i
    by (simp add: pathPoint_def)
  have cx: "cmdX (?pt i) =
              width / 2 + calculateComponentDisplacement pX 1 (sampleTime i) 1 1 * scale width pX pY"
    if "noiseInactive pX" for i
    using that by (simp add: pathPoint_def calcVal_waveform)
  have cy: "cmdY (?pt i) =
              height / 2 - calculateComponentDisplacement pY 1 (sampleTime i) 1 1 * scale width pX pY"
    if "noiseInactive pY" for i
    using that by (simp add: pathPoint_def calcVal_waveform)
  have time: "sampleTime i = (real i / real points) * (numCycles * 2 * pi)" for i
    by (simp add: sampleTime_def duration_def)
  have eff: "orbitEffect True (Some \<lparr>canvasWidth = width, canvasHeight = height, context2d = True\<rparr>)
          (Some pX) (Some pY) = Some ?path"
    by (rule orbitEffect_path)
  have dflt: "points = 720" "numCycles = 2"
    by (simp_all add: points_def numCycles_def)
  have samples: "\<forall>i\<le>points.
            sampleTime i = (real i / real points) * (numCycles * 2 * pi)
            \<and> 0 \<le> sampleTime i \<and> sampleTime i \<le> numCycles * 2 * pi
            \<and> ?path ! i = (if i = 0 then MoveTo else LineTo) (cmdX (?path ! i)) (cmdY (?path ! i))
            \<and> (noiseInactive pX \<longrightarrow>
                  cmdX (?path ! i) =
                    width / 2
                      + calculateComponentDisplacement pX 1 (sampleTime i) 1 1 * scale width pX pY)
            \<and> (noiseInactive pY \<longrightarrow>
                  cmdY (?path ! i) =
                    height / 2
                      - calculateComponentDisplacement pY 1 (sampleTime i) 1 1 * scale width pX pY)"
  proof (intro allI impI)
    fix i assume i: "i \<le> points"
    show "sampleTime i = (real i / real points) * (numCycles * 2 * pi)
            \<and> 0 \<le> sampleTime i \<and> sampleTime i \<le> numCycles * 2 * pi
            \<and> ?path ! i = (if i = 0 then MoveTo else LineTo) (cmdX (?path ! i)) (cmdY (?path ! i))
            \<and> (noiseInactive pX \<longrightarrow>
                  cmdX (?path ! i) =
                    width / 2
                      + calculateComponentDisplacement pX 1 (sampleTime i) 1 1 * scale width pX pY)
            \<and> (noiseInactive pY \<longrightarrow>
                  cmdY (?path ! i) =
                    height / 2
                      - calculateComponentDisplacement pY 1 (sampleTime i) 1 1 * scale width pX pY)"
      unfolding nth [OF i]
      using time [of i] sampleTime_bounds [OF i] shape [of i] cx [of i] cy [of i] by blast
  qed
  have drawn: "\<exists>path.
      orbitEffect True (Some \<lparr>canvasWidth = width, canvasHeight = height, context2d = True\<rparr>)
          (Some pX) (Some pY) = Some path
      \<and> points = 720 \<and> numCycles = 2
      \<and> length path = points + 1
      \<and> sampleTime 0 = 0 \<and> sampleTime points = numCycles * 2 * pi
      \<and> (\<forall>i\<le>points.
            sampleTime i = (real i / real points) * (numCycles * 2 * pi)
            \<and> 0 \<le> sampleTime i \<and> sampleTime i \<le> numCycles * 2 * pi
            \<and> path ! i = (if i = 0 then MoveTo else LineTo) (cmdX (path ! i)) (cmdY (path ! i))
            \<and> (noiseInactive pX \<longrightarrow>
                  cmdX (path ! i) =
                    width / 2
                      + calculateComponentDisplacement pX 1 (sampleTime i) 1 1 * scale width pX pY)
            \<and> (noiseInactive pY \<longrightarrow>
                  cmdY (path ! i) =
                    height / 2
                      - calculateComponentDisplacement pY 1 (sampleTime i) 1 1 * scale width pX pY))"
    using eff dflt len sampleTime_ends samples by (intro exI [of _ ?path] conjI)
  show ?thesis
    by (intro conjI impI drawn orbitEffect_None)
qed

theorem C2_orbit_samples_witness:
  "noiseInactive probeX40 \<and> noiseInactive probeY40 \<and> context2d canvas400
   \<and> map_option length (orbitEffect True (Some canvas400) (Some probeX40) (Some probeY40)) = Some 721
   \<and> map_option (\<lambda>path. (cmdX (hd path), cmdY (hd path)))
        (orbitEffect True (Some canvas400) (Some probeX40) (Some probeY40)) = Some (200, 280 / 3)
   \<and> map_option length (orbitEffect True (Some canvas400) (Some rubProbeX) (Some rubProbeY)) = Some 721
   \<and> orbitEffect True (Some (canvas400\<lparr>context2d := False\<rparr>)) (Some probeX40) (Some probeY40) = None"
proof -
  have n: "noiseInactive probeX40" "noiseInactive probeY40"
    by (simp_all add: noiseInactive_def probeX40_def probeY40_def)
  have c: "context2d canvas400" "\<not> context2d (canvas400\<lparr>context2d := False\<rparr>)"
    by (simp_all add: canvas400_def)
  have cv: "canvas400 = \<lparr>canvasWidth = 400, canvasHeight = 400, context2d = True\<rparr>"
    by (rule canvas400_def)
  from C2_orbit_samples [of 400 400 probeX40 probeY40] obtain path where
    p: "orbitEffect True (Some canvas400) (Some probeX40) (Some probeY40) = Some path"
    and l: "length path = points + 1"
    and a: "\<forall>i\<le>points.
            sampleTime i = (real i / real points) * (numCycles * 2 * pi)
            \<and> 0 \<le> sampleTime i \<and> sampleTime i \<le> numCycles * 2 * pi
            \<and> path ! i = (if i = 0 then MoveTo else LineTo) (cmdX (path ! i)) (cmdY (path ! i))
            \<and> (noiseInactive probeX40 \<longrightarrow>
                  cmdX (path ! i) =
                    400 / 2
                      + calculateComponentDisplacement probeX40 1 (sampleTime i) 1 1
                          * scale 400 probeX40 probeY40)
            \<and> (noiseInactive probeY40 \<longrightarrow>
                  cmdY (path ! i) =
                    400 / 2
                      - calculateComponentDisplacement probeY40 1 (sampleTime i) 1 1
                          * scale 400 probeX40 probeY40)"
    unfolding cv by blast
  from a n le0 [of points]
  have zx: "cmdX (path ! 0) =
              400 / 2 + calculateComponentDisplacement probeX40 1 (sampleTime 0) 1 1
                          * scale 400 probeX40 probeY40"
    by blast
  from a n le0 [of points]
  have zy: "cmdY (path ! 0) =
              400 / 2 - calculateComponentDisplacement probeY40 1 (sampleTime 0) 1 1
                          * scale 400 probeX40 probeY40"
    by blast
  from C2_orbit_samples [of 400 400 rubProbeX rubProbeY] obtain rpath where
    rp: "orbitEffect True (Some canvas400) (Some rubProbeX) (Some rubProbeY) = Some rpath"
    and rl: "length rpath = points + 1"
    unfolding cv by blast
  have off: "orbitEffect True (Some (canvas400\<lparr>context2d := False\<rparr>)) (Some probeX40) (Some probeY40)
               = None"
    using C2_orbit_samples [of 400 400 probeX40 probeY40 None "Some probeX40" "Some probeY40" True
            "canvas400\<lparr>context2d := False\<rparr>"] c(2)
    by blast
  have sc: "scale 400 probeX40 probeY40 = 8 / 3"
    by (simp add: scale_def maxAmp_def getPeakAmp_def probeX40_def probeY40_def)
  have vx: "calculateComponentDisplacement probeX40 1 (sampleTime 0) 1 1 = 0"
    by (simp add: ccd_formula probeX40_def sampleTime_def)
  have vy: "calculateComponentDisplacement probeY40 1 (sampleTime 0) 1 1 = 40"
    by (simp add: ccd_formula probeY40_def sampleTime_def)
  from l have "path \<noteq> []" by auto
  then have h: "hd path = path ! 0" by (rule hd_conv_nth)
  have "cmdX (hd path) = 200" "cmdY (hd path) = 280 / 3"
    by (simp_all add: h zx zy sc vx vy)
  with n c(1) p l rp rl off show ?thesis by (simp add: points_def)
qed

lemma getPeakAmp_formula:
  "getPeakAmp cmp =
     amplitude cmp
       + (\<Sum>h\<leftarrow>(case harmonics cmp of None \<Rightarrow> [] | Some hs \<Rightarrow> hs). amplitude cmp * amplitudeRatio h)
       + (case noise cmp of None \<Rightarrow> 0 | Some n \<Rightarrow> n)"
  by (simp add: getPeakAmp_def peakLoop_sum Let_def split: option.splits)

lemma pathPoint_within:
  assumes "nonNegativeComponent pX" "nonNegativeComponent pY" "0 < width" "width \<le> height"
  shows "let c = pathPoint (width / 2) (height / 2) (scale width pX pY) pX pY i
         in \<bar>cmdX c - width / 2\<bar> < width * 0.4 \<and> \<bar>cmdY c - height / 2\<bar> < width * 0.4
            \<and> 0 < cmdX c \<and> cmdX c < width \<and> 0 < cmdY c \<and> cmdY c < height"
proof -
  define c where "c = pathPoint (width / 2) (height / 2) (scale width pX pY) pX pY i"
  let ?M = "max (getPeakAmp pX) (getPeakAmp pY)"
  have sc: "scale width pX pY = (width * 0.4) / (if ?M * 1.5 \<noteq> 0 then ?M * 1.5 else 1)"
    by (simp only: scale_def maxAmp_def)
  have "\<bar>calcVal pX (sampleTime i)\<bar> \<le> ?M"
    using calcVal_le_getPeakAmp [OF assms(1), of "sampleTime i"] by linarith
  from scaled_bound [OF assms(3) this]
  have bx: "\<bar>calcVal pX (sampleTime i) * scale width pX pY\<bar> \<le> 4 / 15 * width"
    by (simp only: sc)
  have "\<bar>calcVal pY (sampleTime i)\<bar> \<le> ?M"
    using calcVal_le_getPeakAmp [OF assms(2), of "sampleTime i"] by linarith
  from scaled_bound [OF assms(3) this]
  have bnd: "\<bar>calcVal pY (sampleTime i) * scale width pX pY\<bar> \<le> 4 / 15 * width"
    by (simp only: sc)
  have cx: "cmdX c = width / 2 + calcVal pX (sampleTime i) * scale width pX pY"
    and cy: "cmdY c = height / 2 - calcVal pY (sampleTime i) * scale width pX pY"
    by (simp_all add: c_def pathPoint_def)
  have "\<bar>cmdX c - width / 2\<bar> < width * 0.4 \<and> \<bar>cmdY c - height / 2\<bar> < width * 0.4
         \<and> 0 < cmdX c \<and> cmdX c < width \<and> 0 < cmdY c \<and> cmdY c < height"
    using bx bnd assms(3,4) unfolding cx cy by (auto simp: abs_le_iff abs_less_iff)
  then show ?thesis
    by (simp only: Let_def c_def)
qed

text \<open>
  Claim C6. The peak of a component is its amplitude, plus \<open>amplitude * amplitudeRatio\<close>
  of each harmonic, plus its noise; \<open>maxAmp\<close> is the larger of the two probes' peaks
  times \<open>1.5\<close>. For two probes with non-negative amplitude, amplitude ratios and noise,
  on a canvas of positive width that is at least as high as wide (the source's is
  \<open>400\<close> by \<open>400\<close>), every point of the plotted trajectory lies strictly inside the
  canvas and strictly less than the scaled extent \<open>0.4 * width\<close> away from the centre
  on each axis; and every value of either probe, times the headroom \<open>1.5\<close>, stays
  within \<open>maxAmp\<close>.
\<close>

theorem C6_autoscale_no_clipping:
  assumes "nonNegativeComponent pX" "nonNegativeComponent pY" "0 < width" "width \<le> height"
  shows "\<exists>path.
           orbitEffect True (Some \<lparr>canvasWidth = width, canvasHeight = height, context2d = True\<rparr>)
               (Some pX) (Some pY) = Some path
           \<and> (\<forall>c\<in>set path.
                 \<bar>cmdX c - width / 2\<bar> < width * 0.4 \<and> \<bar>cmdY c - height / 2\<bar> < width * 0.4
                 \<and> 0 < cmdX c \<and> cmdX c < width \<and> 0 < cmdY c \<and> cmdY c < height)
           \<and> (\<forall>t. \<bar>calcVal pX t\<bar> * 1.5 \<le> maxAmp pX pY \<and> \<bar>calcVal pY t\<bar> * 1.5 \<le> maxAmp pX pY)
           \<and> getPeakAmp pX =
                 amplitude pX
                   + (\<Sum>h\<leftarrow>(case harmonics pX of None \<Rightarrow> [] | Some hs \<Rightarrow> hs).
                        amplitude pX * amplitudeRatio h)
                   + (case noise pX of None \<Rightarrow> 0 | Some n \<Rightarrow> n)
           \<and> getPeakAmp pY =
                 amplitude pY
                   + (\<Sum>h\<leftarrow>(case harmonics pY of None \<Rightarrow> [] | Some hs \<Rightarrow> hs).
                        amplitude pY * amplitudeRatio h)
                   + (case noise pY of None \<Rightarrow> 0 | Some n \<Rightarrow> n)
           \<and> maxAmp pX pY = max (getPeakAmp pX) (getPeakAmp pY) * 1.5"
proof -
  let ?path = "map (pathPoint (width / 2) (height / 2) (scale width pX pY) pX pY) [0..<Suc points]"
  have "orbitEffect True (Some \<lparr>canvasWidth = width, canvasHeight = height, context2d = True\<rparr>)
          (Some pX) (Some pY) = Some ?path"
    by (rule orbitEffect_path)
  moreover have "\<forall>c\<in>set ?path.
                 \<bar>cmdX c - width / 2\<bar> < width * 0.4 \<and> \<bar>cmdY c - height / 2\<bar> < width * 0.4
                 \<and> 0 < cmdX c \<and> cmdX c < width \<and> 0 < cmdY c \<and> cmdY c < height"
    using pathPoint_within [OF assms] by (auto simp del: upt_Suc simp add: Let_def)
  moreover have "\<bar>calcVal pX t\<bar> * 1.5 \<le> maxAmp pX pY \<and> \<bar>calcVal pY t\<bar> * 1.5 \<le> maxAmp pX pY" for t
    using calcVal_le_getPeakAmp [OF assms(1), of t] calcVal_le_getPeakAmp [OF assms(2), of t]
    by (auto simp add: maxAmp_def max_def)
  moreover note getPeakAmp_formula [of pX] getPeakAmp_formula [of pY] maxAmp_def [of pX pY]
  ultimately show ?thesis by blast
qed

theorem C6_autoscale_no_clipping_witness:
  "nonNegativeComponent probeX40 \<and> nonNegativeComponent probeY40
   \<and> (0::real) < 400 \<and> (400::real) \<le> 400
   \<and> maxAmp probeX40 probeY40 = 60
   \<and> \<bar>calcVal probeY40 0\<bar> * 1.5 \<le> maxAmp probeX40 probeY40
   \<and> map_option (list_all (\<lambda>c. 0 < cmdX c \<and> cmdX c < 400 \<and> 0 < cmdY c \<and> cmdY c < 400))
        (orbitEffect True (Some canvas400) (Some probeX40) (Some probeY40)) = Some True"
proof -
  have n: "nonNegativeComponent probeX40" "nonNegativeComponent probeY40"
    by (simp_all add: nonNegativeComponent_def probeX40_def probeY40_def)
  have w: "(0::real) < 400" "(400::real) \<le> 400" by simp_all
  have m: "maxAmp probeX40 probeY40 = 60"
    by (simp add: maxAmp_def getPeakAmp_def probeX40_def probeY40_def)
  from C6_autoscale_no_clipping [OF n w] obtain path where
    p: "orbitEffect True (Some canvas400) (Some probeX40) (Some probeY40) = Some path"
    and i: "\<forall>c\<in>set path. 0 < cmdX c \<and> cmdX c < 400 \<and> 0 < cmdY c \<and> cmdY c < 400"
    and b: "\<bar>calcVal probeY40 0\<bar> * 1.5 \<le> maxAmp probeX40 probeY40"
    unfolding canvas400_def by blast
  from i have "list_all (\<lambda>c. 0 < cmdX c \<and> cmdX c < 400 \<and> 0 < cmdY c \<and> cmdY c < 400) path"
    by (simp add: list_all_iff)
  with n m p b show ?thesis by simp
qed

section \<open>Properties of the simulation clock\<close>

lemma dynamicVector_useFrame_mono:
  "0 \<le> delta \<Longrightarrow> timeRef \<le> dynamicVector_useFrame groupRefCurrent isPlaying delta timeRef"
  by (simp add: dynamicVector_useFrame_def)

lemma deformableMesh_useFrame_mono:
  "0 \<le> delta \<Longrightarrow> timeRef \<le> deformableMesh_useFrame meshRefCurrent isPlaying delta timeRef"
  by (simp add: deformableMesh_useFrame_def split: option.splits)

lemma runVectorFrames_mono:
  "list_all (\<lambda>(r, p, d). 0 \<le> d) fs \<Longrightarrow> timeRef \<le> runVectorFrames fs timeRef"
proof (induction fs arbitrary: timeRef)
  case Nil
  then show ?case by simp
next
  case (Cons f fs)
  obtain r p d where f: "f = (r, p, d)" by (cases f)
  with Cons.prems have d: "0 \<le> d" and rest: "list_all (\<lambda>(r, p, d). 0 \<le> d) fs" by simp_all
  have "timeRef \<le> dynamicVector_useFrame r p d timeRef"
    using d by (rule dynamicVector_useFrame_mono)
  also have "\<dots> \<le> runVectorFrames fs (dynamicVector_useFrame r p d timeRef)"
    using rest by (rule Cons.IH)
  finally show ?case by (simp add: f)
qed

lemma runMeshFrames_mono:
  "list_all (\<lambda>(r, p, d). 0 \<le> d) fs \<Longrightarrow> timeRef \<le> runMeshFrames fs timeRef"
proof (induction fs arbitrary: timeRef)
  case Nil
  then show ?case by simp
next
  case (Cons f fs)
  obtain r p d where f: "f = (r, p, d)" by (cases f)
  with Cons.prems have d: "0 \<le> d" and rest: "list_all (\<lambda>(r, p, d). 0 \<le> d) fs" by simp_all
  have "timeRef \<le> deformableMesh_useFrame r p d timeRef"
    using d by (rule deformableMesh_useFrame_mono)
  also have "\<dots> \<le> runMeshFrames fs (deformableMesh_useFrame r p d timeRef)"
    using rest by (rule Cons.IH)
  finally show ?case by (simp add: f)
qed

lemma runVectorFrames_append:
  "runVectorFrames (fs @ gs) timeRef = runVectorFrames gs (runVectorFrames fs timeRef)"
  by (induction fs arbitrary: timeRef) auto

lemma runMeshFrames_append:
  "runMeshFrames (fs @ gs) timeRef = runMeshFrames gs (runMeshFrames fs timeRef)"
  by (induction fs arbitrary: timeRef) auto

text \<open>
  Claim C8 as written says every frame taken while playing adds its delta to the
  clock. A frame whose ref is not set returns before the clock update: playing, with
  delta \<open>1\<close> and clock \<open>0\<close>, the clock stays \<open>0\<close>.
\<close>

theorem C8_clock_counterexample:
  "dynamicVector_useFrame False True 1 0 \<noteq> 0 + 1
   \<and> deformableMesh_useFrame None True 1 0 \<noteq> 0 + 1"
  by (simp add: dynamicVector_useFrame_def deformableMesh_useFrame_def)

text \<open>
  Claim C8, amended. A frame taken while playing whose target is present (the group
  ref is set; for the mesh, the mesh ref is set and its geometry has a position
  attribute) adds exactly its delta to the clock. A frame taken while paused, and a
  frame whose target is absent, leave the clock unchanged. So over every run of
  frames with non-negative deltas the clock never decreases: after any further frames
  it is at least what it was.
\<close>

theorem C8_clock:
  "dynamicVector_useFrame True True delta timeRef = timeRef + delta
   \<and> dynamicVector_useFrame groupRefCurrent False delta timeRef = timeRef
   \<and> dynamicVector_useFrame False isPlaying delta timeRef = timeRef
   \<and> (meshReady meshRefCurrent \<longrightarrow>
        deformableMesh_useFrame meshRefCurrent True delta timeRef = timeRef + delta)
   \<and> deformableMesh_useFrame meshRefCurrent False delta timeRef = timeRef
   \<and> (\<not> meshReady meshRefCurrent \<longrightarrow>
        deformableMesh_useFrame meshRefCurrent isPlaying delta timeRef = timeRef)
   \<and> (list_all (\<lambda>(r, p, d). 0 \<le> d) vs \<longrightarrow>
        runVectorFrames vs' timeRef \<le> runVectorFrames (vs' @ vs) timeRef)
   \<and> (list_all (\<lambda>(r, p, d). 0 \<le> d) ms \<longrightarrow>
        runMeshFrames ms' timeRef \<le> runMeshFrames (ms' @ ms) timeRef)"
  by (simp add: dynamicVector_useFrame_def deformableMesh_useFrame_def meshReady_def
        runVectorFrames_append runMeshFrames_append runVectorFrames_mono runMeshFrames_mono
        split: option.splits)

theorem C8_clock_witness:
  "meshReady (Some readyMesh) \<and> \<not> meshReady None
   \<and> runVectorFrames [(True, True, 1 / 4), (True, False, 1 / 2), (False, True, 1)] 0 = 1 / 4
   \<and> runMeshFrames [(Some readyMesh, True, 1 / 4), (Some readyMesh, False, 1 / 2), (None, True, 1)] 0
        = 1 / 4
   \<and> runVectorFrames [(True, True, 1 / 4)] 0
        \<le> runVectorFrames ([(True, True, 1 / 4)] @ [(True, False, 1 / 2), (False, True, 1)]) 0"
  using C8_clock [of "1 / 4" 0 True True "Some readyMesh"
          "[(True, False, 1 / 2), (False, True, 1)]" "[(True, True, 1 / 4)]" "[]" "[]"]
  by (simp add: dynamicVector_useFrame_def deformableMesh_useFrame_def meshReady_def readyMesh_def)

end
